theory Spec2Isabelle
  imports Complex_Main "HOL-Library.Multiset"
begin

section \<open>Data model (backend/models/Game.js)\<close>

text \<open>
  Identifiers are Mongo ObjectIds in the source and are only ever compared through
  \<open>toString()\<close>; they are natural numbers here. Dates are milliseconds since the epoch.
  Called numbers and board numbers are JavaScript numbers and are integers here.
\<close>

type_synonym userId = nat
type_synonym gameId = nat
type_synonym time = int

datatype status = pending | active | completed | cancelled

datatype turn = CreatorTurn | OpponentTurn

datatype gameType = solo | multiplayer

text \<open>
  A board cell is a number or the string \<open>'FREE'\<close>; \<open>Undefined\<close> is what JavaScript yields
  when an array is read out of range.
\<close>

datatype cell = Num int | FREE | Undefined

type_synonym board = "cell list list"

record gameData =
  creatorBoard :: board
  opponentBoard :: board
  calledNumbers :: "int list"
  currentTurn :: turn
  creatorCompletedLines :: int
  opponentCompletedLines :: int
  lastCalledNumber :: "int option"
  lastCalledBy :: "userId option"

record game =
  creator :: userId
  opponent :: userId
  status :: status
  winner :: "userId option"
  gameType :: gameType
  gameData :: gameData
  startedAt :: "time option"
  completedAt :: "time option"
  duration :: "int option"
  requiredLines :: int
  invitationAccepted :: bool
  invitationExpiresAt :: time

section \<open>Methods of the Game model\<close>

definition isExpired :: "game \<Rightarrow> time \<Rightarrow> bool" where
  "isExpired g now \<longleftrightarrow> status g = pending \<and> invitationExpiresAt g < now"

definition canJoin :: "game \<Rightarrow> userId \<Rightarrow> time \<Rightarrow> bool" where
  "canJoin g userId now \<longleftrightarrow>
     status g = pending \<and> \<not> isExpired g now \<and> (creator g = userId \<or> opponent g = userId)"

definition isUserTurn :: "game \<Rightarrow> userId \<Rightarrow> bool" where
  "isUserTurn g userId =
     (if status g \<noteq> active then False
      else let isCreator = (creator g = userId); isOpponent = (opponent g = userId) in
        if isCreator \<and> currentTurn (gameData g) = CreatorTurn then True
        else if isOpponent \<and> currentTurn (gameData g) = OpponentTurn then True
        else False)"

definition getOpponent :: "game \<Rightarrow> userId \<Rightarrow> userId" where
  "getOpponent g userId = (if creator g = userId then opponent g else creator g)"

definition switchTurn :: "turn \<Rightarrow> turn" where
  "switchTurn t = (if t = CreatorTurn then OpponentTurn else CreatorTurn)"

text \<open>
  \<open>callNumber\<close> mutates the document and returns a boolean; the model returns the
  boolean together with the document after the call.
\<close>

definition callNumber :: "game \<Rightarrow> int \<Rightarrow> userId \<Rightarrow> bool \<times> game" where
  "callNumber g number calledBy =
     (if number \<notin> set (calledNumbers (gameData g)) then
        (True, g\<lparr>gameData := (gameData g)
                  \<lparr>calledNumbers := calledNumbers (gameData g) @ [number],
                   lastCalledNumber := Some number,
                   lastCalledBy := Some calledBy,
                   currentTurn := switchTurn (currentTurn (gameData g))\<rparr>\<rparr>)
      else (False, g))"

text \<open>A run of \<open>callNumber\<close> invocations on one document, results discarded.\<close>

fun callNumbers :: "game \<Rightarrow> (int \<times> userId) list \<Rightarrow> game" where
  "callNumbers g [] = g"
| "callNumbers g ((n, u) # cs) = callNumbers (snd (callNumber g n u)) cs"

section \<open>Win evaluation of the model (Game.js, checkWinCondition)\<close>

datatype jsError = TypeError

text \<open>\<open>row[j]\<close>: reading an array out of range yields \<open>undefined\<close>.\<close>

definition elemAt :: "cell list \<Rightarrow> nat \<Rightarrow> cell" where
  "elemAt row j = (if j < length row then row ! j else Undefined)"

text \<open>
  \<open>calledNumbers.includes(num)\<close> on an array of numbers: the string \<open>'FREE'\<close> and
  \<open>undefined\<close> are never found.
\<close>

fun includes_arr :: "int list \<Rightarrow> cell \<Rightarrow> bool" where
  "includes_arr called (Num n) = (n \<in> set called)"
| "includes_arr called FREE = False"
| "includes_arr called Undefined = False"

text \<open>The test of the model on one cell: \<open>num === 'FREE' || calledNumbers.includes(num)\<close>.\<close>

definition marked :: "int list \<Rightarrow> cell \<Rightarrow> bool" where
  "marked called num \<longleftrightarrow> num = FREE \<or> includes_arr called num"

definition rowComplete :: "board \<Rightarrow> int list \<Rightarrow> nat \<Rightarrow> bool" where
  "rowComplete board called i \<longleftrightarrow> list_all (marked called) (board ! i)"

definition columnComplete :: "board \<Rightarrow> int list \<Rightarrow> nat \<Rightarrow> bool" where
  "columnComplete board called j \<longleftrightarrow>
     list_all (\<lambda>row. marked called (elemAt row j)) board"

definition mainDiagonalComplete :: "board \<Rightarrow> int list \<Rightarrow> bool" where
  "mainDiagonalComplete board called \<longleftrightarrow>
     marked called (elemAt (board ! 0) 0) \<and> marked called (elemAt (board ! 1) 1) \<and>
     marked called (elemAt (board ! 2) 2) \<and> marked called (elemAt (board ! 3) 3) \<and>
     marked called (elemAt (board ! 4) 4)"

definition antiDiagonalComplete :: "board \<Rightarrow> int list \<Rightarrow> bool" where
  "antiDiagonalComplete board called \<longleftrightarrow>
     marked called (elemAt (board ! 0) 4) \<and> marked called (elemAt (board ! 1) 3) \<and>
     marked called (elemAt (board ! 2) 2) \<and> marked called (elemAt (board ! 3) 1) \<and>
     marked called (elemAt (board ! 4) 0)"

text \<open>
  The counter \<open>completedLines\<close> after the two loops and the two diagonal tests, for a board
  with at least five rows.
\<close>

definition completedLines :: "board \<Rightarrow> int list \<Rightarrow> nat" where
  "completedLines board called =
     length (filter (rowComplete board called) [0, 1, 2, 3, 4]) +
     length (filter (columnComplete board called) [0, 1, 2, 3, 4]) +
     (if mainDiagonalComplete board called then 1 else 0) +
     (if antiDiagonalComplete board called then 1 else 0)"

text \<open>
  The row loop calls \<open>board[i].every\<close> for \<open>i = 0..4\<close>; on a board with fewer than five
  rows \<open>board[i]\<close> is \<open>undefined\<close> and the call throws a TypeError.
\<close>

definition checkWinCondition :: "game \<Rightarrow> board \<Rightarrow> int list \<Rightarrow> jsError + bool" where
  "checkWinCondition g board called =
     (if length board < 5 then Inl TypeError
      else Inr (requiredLines g \<le> int (completedLines board called)))"

text \<open>
  \<open>Math.round(ms / (1000 * 60))\<close>, rounding half up, on exact integers: the doubles of
  the source agree with it as long as the elapsed time stays below \<open>2^53\<close> milliseconds.
\<close>

definition roundMinutes :: "int \<Rightarrow> int" where
  "roundMinutes ms = (ms + 30000) div 60000"

definition endGame :: "game \<Rightarrow> userId \<Rightarrow> time \<Rightarrow> game" where
  "endGame g winnerId now =
     (let g1 = g\<lparr>status := completed, winner := Some winnerId, completedAt := Some now\<rparr>
      in case startedAt g1 of
           Some s \<Rightarrow> g1\<lparr>duration := Some (roundMinutes (now - s))\<rparr>
         | None \<Rightarrow> g1)"

text \<open>The pre-save middleware.\<close>

definition preSave :: "game \<Rightarrow> time \<Rightarrow> game" where
  "preSave g now = (if isExpired g now \<and> status g = pending then g\<lparr>status := cancelled\<rparr> else g)"

section \<open>The collection of games\<close>

text \<open>
  The collection is a list of documents, a document's id being its position; documents are
  never deleted. \<open>save\<close> runs the pre-save middleware and then writes the document, unless
  the write violates the partial unique index on \<open>(creator, opponent, status)\<close> for pending
  and active documents, in which case it throws (\<open>None\<close>).
\<close>

type_synonym db = "game list"

definition findById :: "db \<Rightarrow> gameId \<Rightarrow> game option" where
  "findById db gameId = (if gameId < length db then Some (db ! gameId) else None)"

definition duplicateKey :: "db \<Rightarrow> gameId \<Rightarrow> game \<Rightarrow> bool" where
  "duplicateKey db gameId g \<longleftrightarrow>
     (status g = pending \<or> status g = active) \<and>
     list_ex (\<lambda>(i, d). i \<noteq> gameId \<and> creator d = creator g \<and> opponent d = opponent g \<and>
                status d = status g) (enumerate 0 db)"

definition save :: "db \<Rightarrow> gameId \<Rightarrow> game \<Rightarrow> time \<Rightarrow> db option" where
  "save db gameId g now =
     (let g' = preSave g now in
      if duplicateKey db gameId g' then None
      else if gameId < length db then Some (db[gameId := g']) else Some (db @ [g']))"

section \<open>Replies\<close>

text \<open>
  An HTTP reply is its status code and its \<open>error\<close> or \<open>message\<close> text; a socket reply
  is the name of the emitted event and its message. Populated documents and broadcast
  payloads are left out.
\<close>

datatype reply = Http nat string | Emit string string

datatype jsval = JNumber int | JString string | JBool bool | JNull | JUndefined

section \<open>REST routes on games\<close>

text \<open>
  Every route takes the collection, the request (\<open>gameId\<close>, the authenticated user, the
  body) and the current time, and returns the reply with the collection after the request.
  An exception inside a route is caught and answered with status 500; whatever was changed
  on the in-memory document is then lost, because only \<open>save\<close> writes.
\<close>

definition joinRoute :: "db \<Rightarrow> gameId \<Rightarrow> userId \<Rightarrow> time \<Rightarrow> reply \<times> db" where
  "joinRoute db gameId user now =
     (case findById db gameId of
        None \<Rightarrow> (Http 404 ''Game not found'', db)
      | Some g \<Rightarrow>
          if \<not> canJoin g user now then (Http 400 ''Cannot join this game'', db)
          else
            (case save db gameId
                    (g\<lparr>status := active, invitationAccepted := True, startedAt := Some now\<rparr>) now of
               None \<Rightarrow> (Http 500 ''Internal server error'', db)
             | Some db' \<Rightarrow> (Http 200 ''Game started successfully'', db')))"

text \<open>
  Lines 277 to 294 of the call-number route: both boards are evaluated against the history,
  the creator's first, the line counters are set to 5 or 0, and the winner is the creator if
  the creator's board wins, else the opponent if the opponent's board wins. The statistics
  and score records written for a winner belong to other collections and are left out.
\<close>

definition evaluateWinner :: "game \<Rightarrow> time \<Rightarrow> jsError + game" where
  "evaluateWinner g now =
     (case checkWinCondition g (creatorBoard (gameData g)) (calledNumbers (gameData g)) of
        Inl e \<Rightarrow> Inl e
      | Inr creatorWins \<Rightarrow>
     (case checkWinCondition g (opponentBoard (gameData g)) (calledNumbers (gameData g)) of
        Inl e \<Rightarrow> Inl e
      | Inr opponentWins \<Rightarrow>
          let creatorLines = (if creatorWins then 5 else 0 :: int);
              opponentLines = (if opponentWins then 5 else 0 :: int);
              g1 = g\<lparr>gameData := (gameData g)\<lparr>creatorCompletedLines := creatorLines,
                                               opponentCompletedLines := opponentLines\<rparr>\<rparr>;
              w = (if creatorLines \<ge> 5 then Some (creator g1)
                   else if opponentLines \<ge> 5 then Some (opponent g1)
                   else None)
          in case w of Some u \<Rightarrow> Inr (endGame g1 u now) | None \<Rightarrow> Inr g1))"

definition callNumberRoute :: "db \<Rightarrow> gameId \<Rightarrow> userId \<Rightarrow> jsval \<Rightarrow> time \<Rightarrow> reply \<times> db" where
  "callNumberRoute db gameId user v now =
     (case findById db gameId of
        None \<Rightarrow> (Http 404 ''Game not found'', db)
      | Some g \<Rightarrow>
          if status g \<noteq> active then (Http 400 ''Game is not active'', db)
          else if \<not> isUserTurn g user then (Http 400 ''It is not your turn'', db)
          else
            (case v of
               JNumber n \<Rightarrow>
                 if n < 1 \<or> n > 25 then (Http 400 ''Invalid number. Must be between 1 and 25.'', db)
                 else
                   (case callNumber g n user of
                      (False, _) \<Rightarrow> (Http 400 ''Number has already been called'', db)
                    | (True, g1) \<Rightarrow>
                        (case evaluateWinner g1 now of
                           Inl _ \<Rightarrow> (Http 500 ''Internal server error'', db)
                         | Inr g2 \<Rightarrow>
                             (case save db gameId g2 now of
                                None \<Rightarrow> (Http 500 ''Internal server error'', db)
                              | Some db' \<Rightarrow> (Http 200 ''Number called successfully'', db'))))
             | _ \<Rightarrow> (Http 400 ''Invalid number. Must be between 1 and 25.'', db)))"

definition declineRoute :: "db \<Rightarrow> gameId \<Rightarrow> userId \<Rightarrow> time \<Rightarrow> reply \<times> db" where
  "declineRoute db gameId user now =
     (case findById db gameId of
        None \<Rightarrow> (Http 404 ''Game not found'', db)
      | Some g \<Rightarrow>
          if opponent g \<noteq> user
          then (Http 403 ''You can only decline games where you are the opponent'', db)
          else if status g \<noteq> pending then (Http 400 ''Game is not pending'', db)
          else
            (case save db gameId (g\<lparr>status := cancelled\<rparr>) now of
               None \<Rightarrow> (Http 500 ''Internal server error'', db)
             | Some db' \<Rightarrow> (Http 200 ''Game invitation declined'', db')))"

definition cancelRoute :: "db \<Rightarrow> gameId \<Rightarrow> userId \<Rightarrow> time \<Rightarrow> reply \<times> db" where
  "cancelRoute db gameId user now =
     (case findById db gameId of
        None \<Rightarrow> (Http 404 ''Game not found'', db)
      | Some g \<Rightarrow>
          if creator g \<noteq> user then (Http 403 ''Only the creator can cancel a game'', db)
          else if status g = completed then (Http 400 ''Cannot cancel a completed game'', db)
          else
            (case save db gameId (g\<lparr>status := cancelled\<rparr>) now of
               None \<Rightarrow> (Http 500 ''Internal server error'', db)
             | Some db' \<Rightarrow> (Http 200 ''Game cancelled successfully'', db')))"

section \<open>Socket handlers on games\<close>

text \<open>
  The handler of \<open>'respond-to-invitation'\<close>: it tests that the user is the opponent, and
  nothing else, before it writes the new status.
\<close>

definition respondToInvitation :: "db \<Rightarrow> gameId \<Rightarrow> userId \<Rightarrow> bool \<Rightarrow> time \<Rightarrow> reply \<times> db" where
  "respondToInvitation db gameId user accepted now =
     (case findById db gameId of
        None \<Rightarrow> (Emit ''error'' ''Game not found'', db)
      | Some g \<Rightarrow>
          if opponent g \<noteq> user then (Emit ''error'' ''Not authorized'', db)
          else if accepted then
            (case save db gameId
                    (g\<lparr>status := active, invitationAccepted := True, startedAt := Some now\<rparr>) now of
               None \<Rightarrow> (Emit ''error'' ''Failed to respond to invitation'', db)
             | Some db' \<Rightarrow> (Emit ''game-started'' ''Game has started!'', db'))
          else
            (case save db gameId (g\<lparr>status := cancelled\<rparr>) now of
               None \<Rightarrow> (Emit ''error'' ''Failed to respond to invitation'', db)
             | Some db' \<Rightarrow> (Emit ''invitation-declined'' [], db')))"

text \<open>The handler of \<open>'call-number'\<close>; it does not validate the number.\<close>

definition callNumberHandler :: "db \<Rightarrow> gameId \<Rightarrow> userId \<Rightarrow> int \<Rightarrow> time \<Rightarrow> reply \<times> db" where
  "callNumberHandler db gameId user n now =
     (case findById db gameId of
        None \<Rightarrow> (Emit ''error'' ''Game not found'', db)
      | Some g \<Rightarrow>
          if status g \<noteq> active then (Emit ''error'' ''Game is not active'', db)
          else if \<not> isUserTurn g user then (Emit ''error'' ''It is not your turn'', db)
          else
            (case callNumber g n user of
               (False, _) \<Rightarrow> (Emit ''error'' ''Number has already been called'', db)
             | (True, g1) \<Rightarrow>
                 (case save db gameId g1 now of
                    None \<Rightarrow> (Emit ''error'' ''Failed to call number'', db)
                  | Some db' \<Rightarrow> (Emit ''number-called'' [], db'))))"

section \<open>Board generation and game creation\<close>

text \<open>
  \<open>Math.random()\<close> is a parameter: \<open>rnd i\<close> is the value drawn in the iteration of the
  shuffle loop whose counter is \<open>i\<close>, a real number that the language guarantees to lie in
  \<open>[0, 1)\<close>.
\<close>

definition allNumbersInit :: "int list" where
  "allNumbersInit = filter (\<lambda>i. i \<noteq> 13) [1..25]"

text \<open>\<open>[a[i], a[j]] = [a[j], a[i]]\<close>: both reads happen before both writes.\<close>

definition swap :: "int list \<Rightarrow> nat \<Rightarrow> nat \<Rightarrow> int list" where
  "swap a i j = a[i := a ! j, j := a ! i]"

text \<open>The shuffle loop, \<open>i\<close> counting down to 1.\<close>

fun shuffle :: "(nat \<Rightarrow> real) \<Rightarrow> nat \<Rightarrow> int list \<Rightarrow> int list" where
  "shuffle rnd 0 a = a"
| "shuffle rnd (Suc k) a =
     (let i = Suc k; j = nat \<lfloor>rnd i * real (i + 1)\<rfloor> in shuffle rnd k (swap a i j))"

text \<open>\<open>allNumbers[numberIndex]\<close>, which is \<open>undefined\<close> out of range.\<close>

definition numberAt :: "int list \<Rightarrow> nat \<Rightarrow> cell" where
  "numberAt a k = (if k < length a then Num (a ! k) else Undefined)"

text \<open>
  The inner loop over the columns \<open>js\<close> of row \<open>i\<close>, and the outer loop over the rows, both
  threading the row or board built so far and \<open>numberIndex\<close>.
\<close>

fun fillRow :: "int list \<Rightarrow> nat \<Rightarrow> nat list \<Rightarrow> cell list \<times> nat \<Rightarrow> cell list \<times> nat" where
  "fillRow a i [] (row, numberIndex) = (row, numberIndex)"
| "fillRow a i (j # js) (row, numberIndex) =
     (if i = 2 \<and> j = 2 then fillRow a i js (row @ [FREE], numberIndex)
      else fillRow a i js (row @ [numberAt a numberIndex], Suc numberIndex))"

fun fillBoard :: "int list \<Rightarrow> nat list \<Rightarrow> board \<times> nat \<Rightarrow> board \<times> nat" where
  "fillBoard a [] (board, numberIndex) = (board, numberIndex)"
| "fillBoard a (i # is) (board, numberIndex) =
     (case fillRow a i [0, 1, 2, 3, 4] ([], numberIndex) of
        (row, numberIndex') \<Rightarrow> fillBoard a is (board @ [row], numberIndex'))"

definition generateBingoBoard :: "(nat \<Rightarrow> real) \<Rightarrow> board" where
  "generateBingoBoard rnd =
     fst (fillBoard (shuffle rnd (length allNumbersInit - 1) allNumbersInit)
            [0, 1, 2, 3, 4] ([], 0))"

text \<open>
  The cells of a board in row-major order, the centre left out: what the claim about
  generated boards speaks of.
\<close>

definition cellsExceptCenter :: "board \<Rightarrow> cell list" where
  "cellsExceptCenter board =
     concat (map (\<lambda>i. map (\<lambda>j. board ! i ! j) (filter (\<lambda>j. \<not> (i = 2 \<and> j = 2)) [0, 1, 2, 3, 4]))
               [0, 1, 2, 3, 4])"

text \<open>The document built by the create route, with the defaults of the schema.\<close>

definition newGame :: "userId \<Rightarrow> userId option \<Rightarrow> gameType \<Rightarrow> board \<Rightarrow> time \<Rightarrow> game" where
  "newGame user opponentId gt sharedBoard now =
     \<lparr>creator = user,
      opponent = (case opponentId of Some p \<Rightarrow> p | None \<Rightarrow> user),
      status = pending,
      winner = None,
      gameType = gt,
      gameData = \<lparr>creatorBoard = sharedBoard, opponentBoard = sharedBoard,
                  calledNumbers = [], currentTurn = CreatorTurn,
                  creatorCompletedLines = 0, opponentCompletedLines = 0,
                  lastCalledNumber = None, lastCalledBy = None\<rparr>,
      startedAt = None, completedAt = None, duration = None,
      requiredLines = 5,
      invitationAccepted = False,
      invitationExpiresAt = now + 24 * 60 * 60 * 1000\<rparr>"

text \<open>
  \<open>Game.findOne\<close> with the query of the create route: a pending or active game between
  the two users, in either order.
\<close>

definition findExisting :: "db \<Rightarrow> userId \<Rightarrow> userId \<Rightarrow> game option" where
  "findExisting db user opponentId =
     find (\<lambda>d. (creator d = user \<and> opponent d = opponentId \<or>
                 creator d = opponentId \<and> opponent d = user) \<and>
                (status d = pending \<or> status d = active)) db"

text \<open>
  The create route. \<open>users\<close> are the ids for which \<open>User.findById\<close> finds a user;
  \<open>opponentId\<close> is \<open>None\<close> when the body has no (truthy) \<open>opponentId\<close>; \<open>gt\<close> is the game
  type after its default.
\<close>

definition createRoute ::
  "userId list \<Rightarrow> db \<Rightarrow> userId \<Rightarrow> userId option \<Rightarrow> gameType \<Rightarrow> (nat \<Rightarrow> real) \<Rightarrow> time \<Rightarrow> reply \<times> db" where
  "createRoute users db user opponentId gt rnd now =
     (if gt = multiplayer \<and> opponentId = None
      then (Http 400 ''Opponent ID is required for multiplayer games'', db)
      else
        (case (case opponentId of
                 None \<Rightarrow> None
               | Some p \<Rightarrow>
                   if p \<notin> set users then Some (Http 404 ''Opponent not found'')
                   else if findExisting db user p \<noteq> None
                   then Some (Http 400 ''There is already an active game with this opponent'')
                   else None) of
           Some r \<Rightarrow> (r, db)
         | None \<Rightarrow>
             (case save db (length db)
                     (newGame user opponentId gt (generateBingoBoard rnd) now) now of
                None \<Rightarrow> (Http 500 ''Internal server error'', db)
              | Some db' \<Rightarrow> (Http 201 ''Game created successfully'', db'))))"

section \<open>The room handlers (unnamed/part_000)\<close>

text \<open>
  Modelled from the spec: the schema of the room documents that these handlers read
  (\<open>players\<close>, \<open>status\<close>, \<open>calledNumbers\<close> with entries \<open>{number, calledBy, calledAt}\<close>,
  \<open>gameSettings.winPattern\<close>, \<open>winner\<close>, \<open>completedAt\<close>) is not among the sources; the
  records below have the fields the handlers use, and no turn pointer occurs in them.
\<close>

record calledEntry =
  entryNumber :: int
  entryCalledBy :: userId
  entryCalledAt :: time

record room =
  players :: "userId list"
  roomStatus :: string
  roomCalledNumbers :: "calledEntry list"
  winPattern :: string

text \<open>
  The handler of \<open>'callNumber'\<close>. \<open>found\<close> is what \<open>Game.findOne({roomCode})\<close> returns,
  and the second component of the result is that document as stored afterwards. For a
  number, \<open>!number\<close> holds exactly of 0.
\<close>

definition callNumberRoom :: "room option \<Rightarrow> userId \<Rightarrow> int \<Rightarrow> time \<Rightarrow> reply \<times> room option" where
  "callNumberRoom found user n now =
     (if n = 0 \<or> n < 1 \<or> n > 75 then (Emit ''error'' ''Invalid number (must be 1-75)'', found)
      else
        (case found of
           None \<Rightarrow> (Emit ''error'' ''Room not found'', found)
         | Some r \<Rightarrow>
             if roomStatus r \<noteq> ''active'' then (Emit ''error'' ''Game is not active'', found)
             else if \<not> list_ex (\<lambda>p. p = user) (players r)
             then (Emit ''error'' ''You are not in this game'', found)
             else if list_ex (\<lambda>cn. entryNumber cn = n) (roomCalledNumbers r)
             then (Emit ''error'' ''Number already called'', found)
             else (Emit ''numberCalled'' [],
                   Some (r\<lparr>roomCalledNumbers := roomCalledNumbers r @
                             [\<lparr>entryNumber = n, entryCalledBy = user, entryCalledAt = now\<rparr>]\<rparr>))))"

text \<open>
  The win predicates of the room handlers. They test \<open>calledNumbers.includes(num)\<close> alone.
  \<open>board[i]\<close> of a missing row is \<open>undefined\<close>, and reading a property of it throws.
\<close>

fun checkLineRows :: "board \<Rightarrow> int list \<Rightarrow> nat list \<Rightarrow> jsError + bool" where
  "checkLineRows board called [] = Inr False"
| "checkLineRows board called (i # is) =
     (if i \<ge> length board then Inl TypeError
      else if list_all (includes_arr called) (board ! i) then Inr True
      else checkLineRows board called is)"

fun checkLineColumns :: "board \<Rightarrow> int list \<Rightarrow> nat list \<Rightarrow> bool" where
  "checkLineColumns board called [] = False"
| "checkLineColumns board called (j # js) =
     (if list_all (\<lambda>row. includes_arr called (elemAt row j)) board then True
      else checkLineColumns board called js)"

definition checkLineWin :: "board \<Rightarrow> int list \<Rightarrow> jsError + bool" where
  "checkLineWin board called =
     (case checkLineRows board called [0, 1, 2, 3, 4] of
        Inl e \<Rightarrow> Inl e
      | Inr True \<Rightarrow> Inr True
      | Inr False \<Rightarrow> Inr (checkLineColumns board called [0, 1, 2, 3, 4]))"

definition checkFullWin :: "board \<Rightarrow> int list \<Rightarrow> jsError + bool" where
  "checkFullWin board called = Inr (list_all (\<lambda>row. list_all (includes_arr called) row) board)"

definition checkCornersWin :: "board \<Rightarrow> int list \<Rightarrow> jsError + bool" where
  "checkCornersWin board called =
     (if length board < 5 then Inl TypeError
      else Inr (list_all (includes_arr called)
                  [elemAt (board ! 0) 0, elemAt (board ! 0) 4, elemAt (board ! 4) 0, elemAt (board ! 4) 4]))"

definition checkDiagonalWin :: "board \<Rightarrow> int list \<Rightarrow> jsError + bool" where
  "checkDiagonalWin board called =
     (if length board < 5 then Inl TypeError
      else if list_all (includes_arr called)
                [elemAt (board ! 0) 0, elemAt (board ! 1) 1, elemAt (board ! 2) 2, elemAt (board ! 3) 3,
                 elemAt (board ! 4) 4]
      then Inr True
      else Inr (list_all (includes_arr called)
                  [elemAt (board ! 0) 4, elemAt (board ! 1) 3, elemAt (board ! 2) 2, elemAt (board ! 3) 1,
                   elemAt (board ! 4) 0]))"

definition checkWinConditionRoom :: "board \<Rightarrow> int list \<Rightarrow> string \<Rightarrow> jsError + bool" where
  "checkWinConditionRoom board called pat =
     (if pat = ''line'' then checkLineWin board called
      else if pat = ''full'' then checkFullWin board called
      else if pat = ''corners'' then checkCornersWin board called
      else if pat = ''diagonal'' then checkDiagonalWin board called
      else checkLineWin board called)"

section \<open>Sequences of operations\<close>

datatype action =
    Join gameId userId
  | Respond gameId userId bool
  | Decline gameId userId
  | Cancel gameId userId
  | CallNumber gameId userId jsval
  | SocketCallNumber gameId userId int

fun step :: "db \<Rightarrow> action \<times> time \<Rightarrow> db" where
  "step db (Join gid u, now) = snd (joinRoute db gid u now)"
| "step db (Respond gid u accepted, now) = snd (respondToInvitation db gid u accepted now)"
| "step db (Decline gid u, now) = snd (declineRoute db gid u now)"
| "step db (Cancel gid u, now) = snd (cancelRoute db gid u now)"
| "step db (CallNumber gid u v, now) = snd (callNumberRoute db gid u v now)"
| "step db (SocketCallNumber gid u n, now) = snd (callNumberHandler db gid u n now)"

definition run :: "db \<Rightarrow> (action \<times> time) list \<Rightarrow> db" where
  "run db acts = foldl step db acts"

fun isRespond :: "action \<times> time \<Rightarrow> bool" where
  "isRespond (Respond gid u accepted, now) = True"
| "isRespond _ = False"

text \<open>
  The status changes that one request of the REST routes or of the \<open>'call-number'\<close> handler
  can make: none, pending to active or cancelled, active to completed or cancelled.
\<close>

fun statusStep :: "status \<Rightarrow> status \<Rightarrow> bool" where
  "statusStep pending s = (s = pending \<or> s = active \<or> s = cancelled)"
| "statusStep active s = (s = active \<or> s = completed \<or> s = cancelled)"
| "statusStep completed s = (s = completed)"
| "statusStep cancelled s = (s = cancelled)"

text \<open>
  One request on the collection: no document is added or removed, and the status of every
  document changes by \<open>statusStep\<close>.
\<close>

definition okStep :: "db \<Rightarrow> db \<Rightarrow> bool" where
  "okStep db db' \<longleftrightarrow>
     length db' = length db \<and>
     (\<forall>i < length db. statusStep (status (db ! i)) (status (db' ! i)))"

text \<open>The participant that the turn pointer designates.\<close>

definition currentPlayer :: "game \<Rightarrow> userId" where
  "currentPlayer g = (if currentTurn (gameData g) = CreatorTurn then creator g else opponent g)"

section \<open>Sample data\<close>

definition board0 :: board where
  "board0 =
     [[Num 1, Num 2, Num 3, Num 4, Num 5],
      [Num 6, Num 7, Num 8, Num 9, Num 10],
      [Num 11, Num 12, FREE, Num 14, Num 15],
      [Num 16, Num 17, Num 18, Num 19, Num 20],
      [Num 21, Num 22, Num 23, Num 24, Num 25]]"

text \<open>A game between users 1 and 2 as created at time 0, and the same game once joined.\<close>

definition game0 :: game where
  "game0 = newGame 1 (Some 2) multiplayer board0 0"

definition activeGame0 :: game where
  "activeGame0 = game0\<lparr>status := active, invitationAccepted := True, startedAt := Some 1000\<rparr>"

definition withCalls :: "game \<Rightarrow> int list \<Rightarrow> turn \<Rightarrow> game" where
  "withCalls g ns t = g\<lparr>gameData := (gameData g)\<lparr>calledNumbers := ns, currentTurn := t\<rparr>\<rparr>"

definition room0 :: room where
  "room0 = \<lparr>players = [1, 2], roomStatus = ''active'', roomCalledNumbers = [],
             winPattern = ''line''\<rparr>"

text \<open>
  The game \<open>activeGame0\<close> after nineteen calls, the numbers of columns 1 to 4 of \<open>board0\<close>:
  four lines are complete and it is the opponent's turn.
\<close>

definition nearWin0 :: game where
  "nearWin0 = withCalls activeGame0
     [2, 3, 4, 5, 7, 8, 9, 10, 12, 14, 15, 17, 18, 19, 20, 22, 23, 24, 25] OpponentTurn"

definition acts0 :: "(action \<times> time) list" where
  "acts0 = [(Join 0 2, 1000), (CallNumber 0 1 (JNumber 7), 2000), (Cancel 0 1, 3000),
            (Join 0 2, 4000)]"

section \<open>Properties of callNumber\<close>

lemma callNumber_distinct:
  "distinct (calledNumbers (gameData g)) \<Longrightarrow>
   distinct (calledNumbers (gameData (snd (callNumber g n u))))"
  by (simp add: callNumber_def)

lemma callNumbers_distinct:
  "distinct (calledNumbers (gameData g)) \<Longrightarrow>
   distinct (calledNumbers (gameData (callNumbers g cs)))"
proof (induction cs arbitrary: g)
  case Nil
  then show ?case by simp
next
  case (Cons c cs)
  obtain n u where c: "c = (n, u)" by (cases c)
  from Cons.prems have "distinct (calledNumbers (gameData (snd (callNumber g n u))))"
    by (rule callNumber_distinct)
  then show ?case unfolding c by (simp add: Cons.IH)
qed

text \<open>
  Claim C1. Calling a number that is already in the called-number history returns false and
  leaves the document exactly as it was: nothing is appended, \<open>lastCalledNumber\<close> and
  \<open>lastCalledBy\<close> keep their values and the turn does not flip. Consequently a history
  without duplicates stays without duplicates under any run of calls.
\<close>

theorem callNumber_duplicate_noop:
  "(number \<in> set (calledNumbers (gameData g)) \<longrightarrow> callNumber g number calledBy = (False, g))
   \<and> (distinct (calledNumbers (gameData g)) \<longrightarrow>
        distinct (calledNumbers (gameData (callNumbers g cs))))"
  by (simp add: callNumber_def callNumbers_distinct)

theorem callNumber_duplicate_noop_witness:
  "7 \<in> set (calledNumbers (gameData (withCalls activeGame0 [7] OpponentTurn))) \<and>
   callNumber (withCalls activeGame0 [7] OpponentTurn) 7 1 =
     (False, withCalls activeGame0 [7] OpponentTurn) \<and>
   distinct (calledNumbers (gameData (withCalls activeGame0 [7] OpponentTurn))) \<and>
   distinct (calledNumbers (gameData
     (callNumbers (withCalls activeGame0 [7] OpponentTurn) [(7, 1), (8, 2)])))"
  using callNumber_duplicate_noop
          [of 7 "withCalls activeGame0 [7] OpponentTurn" 1 "[(7, 1), (8, 2)]"]
  by (simp add: withCalls_def callNumber_def)

text \<open>
  Claim C2. Calling a number that is not yet in the history returns true, appends the number
  to the history, records it and its caller as the last call, and flips the turn pointer
  from creator to opponent or from opponent to creator.
\<close>

theorem callNumber_fresh_appends:
  "number \<notin> set (calledNumbers (gameData g)) \<Longrightarrow>
   callNumber g number calledBy =
     (True, g\<lparr>gameData := (gameData g)
               \<lparr>calledNumbers := calledNumbers (gameData g) @ [number],
                lastCalledNumber := Some number,
                lastCalledBy := Some calledBy,
                currentTurn := (case currentTurn (gameData g) of
                                  CreatorTurn \<Rightarrow> OpponentTurn
                                | OpponentTurn \<Rightarrow> CreatorTurn)\<rparr>\<rparr>)"
  by (cases "currentTurn (gameData g)") (simp_all add: callNumber_def switchTurn_def)

theorem callNumber_fresh_appends_witness:
  "7 \<notin> set (calledNumbers (gameData activeGame0)) \<and>
   fst (callNumber activeGame0 7 1) = True \<and>
   calledNumbers (gameData (snd (callNumber activeGame0 7 1))) = [7] \<and>
   lastCalledNumber (gameData (snd (callNumber activeGame0 7 1))) = Some 7 \<and>
   lastCalledBy (gameData (snd (callNumber activeGame0 7 1))) = Some 1 \<and>
   currentTurn (gameData (snd (callNumber activeGame0 7 1))) = OpponentTurn"
proof -
  have fresh: "7 \<notin> set (calledNumbers (gameData activeGame0))"
    by (simp add: activeGame0_def game0_def newGame_def)
  show ?thesis
    using fresh callNumber_fresh_appends [OF fresh, of 1]
    by (simp add: activeGame0_def game0_def newGame_def)
qed

section \<open>FREE cells in the win predicates\<close>

lemma marked_FREE: "marked called FREE"
  by (simp add: marked_def)

lemma room_row_with_FREE_incomplete:
  "FREE \<in> set row \<Longrightarrow> \<not> list_all (includes_arr called) row"
  by (induction row) auto

text \<open>
  On the model's path a centre row made of FREE and four called numbers counts as a
  complete line, and the board wins as soon as one line is required.
\<close>

lemma model_center_row_wins:
  assumes "5 \<le> length board" and "board ! 2 = [Num a, Num b, FREE, Num c, Num d]"
    and "{a, b, c, d} \<subseteq> set called" and "requiredLines g \<le> 1"
  shows "checkWinCondition g board called = Inr True"
proof -
  have "rowComplete board called 2"
    using assms(2,3) by (simp add: rowComplete_def marked_def)
  then have "1 \<le> completedLines board called"
    by (simp add: completedLines_def)
  with assms(1,4) show ?thesis by (simp add: checkWinCondition_def)
qed

text \<open>
  Claim C3. On the board \<open>board0\<close>, whose centre row is 11, 12, FREE, 14, 15, with exactly
  11, 12, 14 and 15 called, the model's cell test counts the centre row as complete and
  \<open>checkWinCondition\<close> of the model answers true when one line is required, but the
  \<open>checkWinCondition\<close> of the room handlers answers false under pattern \<open>line\<close>: its cell
  test is \<open>calledNumbers.includes(num)\<close> alone, which the FREE cell never passes. For the
  same reason the room handlers answer false under the patterns \<open>full\<close> and \<open>diagonal\<close>
  even when all 24 numbers of the board have been called.
\<close>

theorem free_center_row_line:
  "rowComplete board0 [11, 12, 14, 15] 2 \<and>
   checkWinCondition (activeGame0\<lparr>requiredLines := 1\<rparr>) board0 [11, 12, 14, 15] = Inr True \<and>
   checkWinConditionRoom board0 [11, 12, 14, 15] ''line'' = Inr False \<and>
   checkWinConditionRoom board0 allNumbersInit ''full'' = Inr False \<and>
   checkWinConditionRoom board0 allNumbersInit ''diagonal'' = Inr False"
  by (simp add: rowComplete_def marked_def board0_def checkWinCondition_def completedLines_def
      columnComplete_def mainDiagonalComplete_def antiDiagonalComplete_def elemAt_def
      checkWinConditionRoom_def checkLineWin_def checkFullWin_def checkDiagonalWin_def)

section \<open>Turn enforcement\<close>

lemma not_current_not_turn: "user \<noteq> currentPlayer g \<Longrightarrow> \<not> isUserTurn g user"
  by (cases "currentTurn (gameData g)") (auto simp: isUserTurn_def currentPlayer_def Let_def)

text \<open>
  Claim C4, as amended. On an active game, a call-number request of a user other than the
  participant the turn pointer designates is answered with the error "It is not your turn"
  and leaves the collection as it was, both on the REST call-number route and on the
  \<open>'call-number'\<close> socket handler.
\<close>

theorem not_your_turn_rejected:
  "findById db gid = Some g \<Longrightarrow> status g = active \<Longrightarrow> user \<noteq> currentPlayer g \<Longrightarrow>
   callNumberRoute db gid user v now = (Http 400 ''It is not your turn'', db) \<and>
   callNumberHandler db gid user n now = (Emit ''error'' ''It is not your turn'', db)"
  by (simp add: callNumberRoute_def callNumberHandler_def not_current_not_turn)

theorem not_your_turn_rejected_witness:
  "findById [activeGame0] 0 = Some activeGame0 \<and> status activeGame0 = active \<and>
   2 \<noteq> currentPlayer activeGame0 \<and>
   callNumberRoute [activeGame0] 0 2 (JNumber 7) 5000 =
     (Http 400 ''It is not your turn'', [activeGame0]) \<and>
   callNumberHandler [activeGame0] 0 2 7 5000 =
     (Emit ''error'' ''It is not your turn'', [activeGame0])"
proof -
  have a: "findById [activeGame0] 0 = Some activeGame0" by (simp add: findById_def)
  have b: "status activeGame0 = active" by (simp add: activeGame0_def)
  have c: "2 \<noteq> currentPlayer activeGame0"
    by (simp add: currentPlayer_def activeGame0_def game0_def newGame_def)
  show ?thesis
    using a b c not_your_turn_rejected [OF a b c, of "JNumber 7" 5000 7] by simp
qed

text \<open>
  The \<open>'callNumber'\<close> handler of the rooms has no turn test: from one and the same state of
  an active room with players 1 and 2, the call of number 5 succeeds and is recorded for
  player 1 and for player 2 alike.
\<close>

theorem callNumberRoom_any_player_counterexample:
  "roomStatus room0 = ''active'' \<and> players room0 = [1, 2] \<and>
   callNumberRoom (Some room0) 1 5 0 =
     (Emit ''numberCalled'' [],
      Some (room0\<lparr>roomCalledNumbers :=
        [\<lparr>entryNumber = 5, entryCalledBy = 1, entryCalledAt = 0\<rparr>]\<rparr>)) \<and>
   callNumberRoom (Some room0) 2 5 0 =
     (Emit ''numberCalled'' [],
      Some (room0\<lparr>roomCalledNumbers :=
        [\<lparr>entryNumber = 5, entryCalledBy = 2, entryCalledAt = 0\<rparr>]\<rparr>))"
  by (simp add: callNumberRoom_def room0_def)

section \<open>Creating a game\<close>

lemma find_Some_ex: "d \<in> set xs \<Longrightarrow> P d \<Longrightarrow> find P xs \<noteq> None"
  by (auto simp: find_None_iff)

text \<open>
  Claim C6. When the collection holds a pending or active game between the requesting user
  and the opponent named in the request (a registered user), in either creator/opponent
  order, the create route answers 400 "There is already an active game with this opponent"
  and the collection is unchanged: no game is created.
\<close>

theorem create_conflict:
  assumes "d \<in> set db"
    and "creator d = user \<and> opponent d = p \<or> creator d = p \<and> opponent d = user"
    and "status d = pending \<or> status d = active"
    and "p \<in> set users"
  shows "createRoute users db user (Some p) gt rnd now =
           (Http 400 ''There is already an active game with this opponent'', db)"
proof -
  have "findExisting db user p \<noteq> None"
    unfolding findExisting_def using assms(1-3) by (intro find_Some_ex[of d]) auto
  with assms(4) show ?thesis by (simp add: createRoute_def)
qed

theorem create_conflict_witness:
  "game0 \<in> set [game0] \<and>
   (creator game0 = 2 \<and> opponent game0 = 1 \<or> creator game0 = 1 \<and> opponent game0 = 2) \<and>
   (status game0 = pending \<or> status game0 = active) \<and> 1 \<in> set [1, 2::nat] \<and>
   createRoute [1, 2] [game0] 2 (Some 1) multiplayer (\<lambda>i. 0) 5000 =
     (Http 400 ''There is already an active game with this opponent'', [game0])"
proof -
  have a: "game0 \<in> set [game0]" by simp
  have b: "creator game0 = 2 \<and> opponent game0 = 1 \<or> creator game0 = 1 \<and> opponent game0 = 2"
    by (simp add: game0_def newGame_def)
  have c: "status game0 = pending \<or> status game0 = active" by (simp add: game0_def newGame_def)
  have d: "1 \<in> set [1, 2::nat]" by simp
  show ?thesis using a b c d create_conflict [OF a b c d, of multiplayer "\<lambda>i. 0" 5000] by simp
qed

section \<open>Expired invitations\<close>

text \<open>
  Claim C7, as amended. A new game expires 24 hours after its creation. For a pending game
  whose expiry has passed, \<open>isExpired\<close> holds and \<open>canJoin\<close> fails for every user, so the
  join route answers 400 "Cannot join this game" and leaves the collection as it was, the
  game still pending; the pre-save middleware turns such a game into a cancelled one when
  it is saved while pending.
\<close>

theorem expired_invitation:
  "findById db gid = Some g \<Longrightarrow> status g = pending \<Longrightarrow> invitationExpiresAt g < now \<Longrightarrow>
   invitationExpiresAt (newGame u p gt b t) = t + 86400000 \<and>
   isExpired g now \<and> \<not> canJoin g user now \<and>
   joinRoute db gid user now = (Http 400 ''Cannot join this game'', db) \<and>
   status (preSave g now) = cancelled"
  by (simp add: isExpired_def canJoin_def joinRoute_def preSave_def newGame_def)

theorem expired_invitation_witness:
  "findById [game0] 0 = Some game0 \<and> status game0 = pending \<and>
   invitationExpiresAt game0 < 90000000 \<and>
   isExpired game0 90000000 \<and> \<not> canJoin game0 2 90000000 \<and>
   joinRoute [game0] 0 2 90000000 = (Http 400 ''Cannot join this game'', [game0]) \<and>
   status (preSave game0 90000000) = cancelled"
proof -
  have a: "findById [game0] 0 = Some game0" by (simp add: findById_def)
  have b: "status game0 = pending" by (simp add: game0_def newGame_def)
  have c: "invitationExpiresAt game0 < 90000000" by (simp add: game0_def newGame_def)
  show ?thesis using a b c expired_invitation [OF a b c, of 1 None solo "[]" 0 2] by simp
qed

text \<open>
  The game \<open>game0\<close>, created at time 0, is still pending at time 90000000, after its expiry.
  The join route rejects user 2 and the stored game stays pending, not cancelled; the
  \<open>'respond-to-invitation'\<close> handler, asked by user 2 to accept, makes the game active.
\<close>

theorem expired_invitation_counterexample:
  "status game0 = pending \<and> invitationExpiresAt game0 < 90000000 \<and>
   joinRoute [game0] 0 2 90000000 = (Http 400 ''Cannot join this game'', [game0]) \<and>
   status (snd (respondToInvitation [game0] 0 2 True 90000000) ! 0) = active"
  by (simp add: game0_def newGame_def joinRoute_def findById_def canJoin_def isExpired_def
      respondToInvitation_def save_def preSave_def duplicateKey_def)

section \<open>Status transitions\<close>

lemma save_existing:
  "gid < length db \<Longrightarrow> save db gid g now = Some db' \<Longrightarrow> db' = db[gid := preSave g now]"
  by (auto simp: save_def Let_def split: if_splits)

lemma findById_Some: "findById db gid = Some g \<longleftrightarrow> gid < length db \<and> g = db ! gid"
  by (auto simp: findById_def)

lemma statusStep_refl: "statusStep s s"
  by (cases s) simp_all

lemma okStep_refl: "okStep db db"
  by (simp add: okStep_def statusStep_refl)

lemma okStep_update:
  "gid < length db \<Longrightarrow> statusStep (status (db ! gid)) (status g') \<Longrightarrow> okStep db (db[gid := g'])"
  by (simp add: okStep_def nth_list_update statusStep_refl)

text \<open>A document saved with a status other than pending is stored with that status.\<close>

lemma okStep_save:
  assumes "gid < length db" and "save db gid g now = Some db'"
    and "statusStep (status (db ! gid)) (status g)" and "status g \<noteq> pending"
  shows "okStep db db'"
proof -
  have "db' = db[gid := preSave g now]" using assms(1,2) by (rule save_existing)
  moreover have "status (preSave g now) = status g"
    using assms(4) by (simp add: preSave_def isExpired_def)
  ultimately show ?thesis using assms(1,3) by (simp add: okStep_update)
qed

lemma joinRoute_ok: "okStep db (snd (joinRoute db gid u now))"
proof (cases "findById db gid")
  case None
  then show ?thesis by (simp add: joinRoute_def okStep_refl)
next
  case (Some g)
  then have lt: "gid < length db" and g: "g = db ! gid" by (simp_all add: findById_Some)
  show ?thesis
  proof (cases "canJoin g u now")
    case False
    with Some show ?thesis by (simp add: joinRoute_def okStep_refl)
  next
    case True
    then have p: "status (db ! gid) = pending" by (simp add: canJoin_def g)
    show ?thesis
    proof (cases "save db gid
                    (g\<lparr>status := active, invitationAccepted := True, startedAt := Some now\<rparr>) now")
      case None
      with Some True show ?thesis by (simp add: joinRoute_def okStep_refl)
    next
      case (Some db')
      have "okStep db db'" by (rule okStep_save [OF lt Some]) (simp_all add: p)
      with Some \<open>findById db gid = Some g\<close> True show ?thesis by (simp add: joinRoute_def)
    qed
  qed
qed

lemma declineRoute_ok: "okStep db (snd (declineRoute db gid u now))"
proof (cases "findById db gid")
  case None
  then show ?thesis by (simp add: declineRoute_def okStep_refl)
next
  case (Some g)
  then have lt: "gid < length db" and g: "g = db ! gid" by (simp_all add: findById_Some)
  show ?thesis
  proof (cases "opponent g = u \<and> status g = pending")
    case False
    with Some show ?thesis by (auto simp: declineRoute_def okStep_refl)
  next
    case True
    then have p: "status (db ! gid) = pending" by (simp add: g)
    show ?thesis
    proof (cases "save db gid (g\<lparr>status := cancelled\<rparr>) now")
      case None
      with Some True show ?thesis by (simp add: declineRoute_def okStep_refl)
    next
      case (Some db')
      have "okStep db db'" by (rule okStep_save [OF lt Some]) (simp_all add: p)
      with Some \<open>findById db gid = Some g\<close> True show ?thesis by (simp add: declineRoute_def)
    qed
  qed
qed

text \<open>The cancel route turns away a completed game only, so it cancels an active one.\<close>

lemma cancelRoute_ok: "okStep db (snd (cancelRoute db gid u now))"
proof (cases "findById db gid")
  case None
  then show ?thesis by (simp add: cancelRoute_def okStep_refl)
next
  case (Some g)
  then have lt: "gid < length db" and g: "g = db ! gid" by (simp_all add: findById_Some)
  show ?thesis
  proof (cases "creator g = u \<and> status g \<noteq> completed")
    case False
    with Some show ?thesis by (auto simp: cancelRoute_def okStep_refl)
  next
    case True
    then have p: "statusStep (status (db ! gid)) cancelled"
      by (cases "status (db ! gid)") (simp_all add: g)
    show ?thesis
    proof (cases "save db gid (g\<lparr>status := cancelled\<rparr>) now")
      case None
      with Some True show ?thesis by (simp add: cancelRoute_def okStep_refl)
    next
      case (Some db')
      have "okStep db db'" by (rule okStep_save [OF lt Some]) (simp_all add: p)
      with Some \<open>findById db gid = Some g\<close> True show ?thesis by (simp add: cancelRoute_def)
    qed
  qed
qed

lemma status_callNumber: "status (snd (callNumber g n u)) = status g"
  by (simp add: callNumber_def)

lemma status_evaluateWinner:
  "evaluateWinner g now = Inr g' \<Longrightarrow> status g' = status g \<or> status g' = completed"
  by (auto simp: evaluateWinner_def endGame_def Let_def split: sum.splits if_splits option.splits)

lemma callNumberRoute_ok: "okStep db (snd (callNumberRoute db gid u v now))"
proof (cases "snd (callNumberRoute db gid u v now) = db")
  case True
  then show ?thesis by (simp add: okStep_refl)
next
  case False
  then obtain g n g1 g2 db' where
    f: "findById db gid = Some g" and a: "status g = active" and
    c: "callNumber g n u = (True, g1)" and
    e: "evaluateWinner g1 now = Inr g2" and
    s: "save db gid g2 now = Some db'" and r: "snd (callNumberRoute db gid u v now) = db'"
    by (auto simp: callNumberRoute_def
        split: option.splits if_splits jsval.splits prod.splits bool.splits sum.splits)
  from f have lt: "gid < length db" and g: "g = db ! gid" by (simp_all add: findById_Some)
  from c have "status g1 = active" using status_callNumber [of g n u] a by simp
  with status_evaluateWinner [OF e] have "status g2 = active \<or> status g2 = completed" by auto
  then have "okStep db db'" using a g by (intro okStep_save [OF lt s]) auto
  with r show ?thesis by simp
qed

lemma callNumberHandler_ok: "okStep db (snd (callNumberHandler db gid u n now))"
proof (cases "snd (callNumberHandler db gid u n now) = db")
  case True
  then show ?thesis by (simp add: okStep_refl)
next
  case False
  then obtain g g1 db' where
    f: "findById db gid = Some g" and a: "status g = active" and
    c: "callNumber g n u = (True, g1)" and
    s: "save db gid g1 now = Some db'" and r: "snd (callNumberHandler db gid u n now) = db'"
    by (auto simp: callNumberHandler_def split: option.splits if_splits prod.splits bool.splits)
  from f have lt: "gid < length db" and g: "g = db ! gid" by (simp_all add: findById_Some)
  from c have "status g1 = active" using status_callNumber [of g n u] a by simp
  then have "okStep db db'" using a g by (intro okStep_save [OF lt s]) auto
  with r show ?thesis by simp
qed

lemma step_ok: "\<not> isRespond a \<Longrightarrow> okStep db (step db a)"
proof (cases a)
  case (Pair act now)
  assume "\<not> isRespond a"
  with Pair show ?thesis
    by (cases act)
       (simp_all add: joinRoute_ok declineRoute_ok cancelRoute_ok callNumberRoute_ok
          callNumberHandler_ok)
qed

lemma run_snoc: "run db (acts @ [a]) = step (run db acts) a"
  by (simp add: run_def)

lemma length_run: "\<forall>a \<in> set acts. \<not> isRespond a \<Longrightarrow> length (run db acts) = length db"
proof (induction acts rule: rev_induct)
  case Nil
  then show ?case by (simp add: run_def)
next
  case (snoc a acts)
  then have "okStep (run db acts) (step (run db acts) a)" by (intro step_ok) simp
  with snoc show ?case by (simp add: run_snoc okStep_def)
qed

lemma run_terminal:
  assumes "\<forall>a \<in> set acts. \<not> isRespond a" and "gid < length db"
    and "status (db ! gid) = completed \<or> status (db ! gid) = cancelled"
  shows "status (run db acts ! gid) = status (db ! gid)"
  using assms(1)
proof (induction acts rule: rev_induct)
  case Nil
  then show ?case by (simp add: run_def)
next
  case (snoc a acts)
  then have ih: "status (run db acts ! gid) = status (db ! gid)" by simp
  have len: "length (run db acts) = length db" using snoc.prems by (intro length_run) simp
  have "okStep (run db acts) (step (run db acts) a)" using snoc.prems by (intro step_ok) simp
  then have "statusStep (status (run db acts ! gid)) (status (step (run db acts) a ! gid))"
    using assms(2) len by (simp add: okStep_def)
  with ih assms(3) show ?case by (auto simp: run_snoc)
qed

text \<open>
  Claim C5, as amended. Along every sequence of join, decline, cancel and call-number
  requests (the REST routes and the \<open>'call-number'\<close> socket handler, the call-number route
  ending the game through \<open>endGame\<close>), each request leaves the status of a game unchanged or
  takes it from pending to active or cancelled, or from active to completed or cancelled;
  a game that is completed or cancelled keeps its status to the end of the sequence.
\<close>

theorem status_transitions:
  assumes "\<forall>a \<in> set acts. \<not> isRespond a" and "gid < length db"
  shows "(\<forall>k < length acts.
            statusStep (status (run db (take k acts) ! gid))
                       (status (run db (take (Suc k) acts) ! gid))) \<and>
         (status (db ! gid) = completed \<or> status (db ! gid) = cancelled \<longrightarrow>
            status (run db acts ! gid) = status (db ! gid))"
proof (intro conjI allI impI)
  fix k assume k: "k < length acts"
  have pre: "\<forall>a \<in> set (take k acts). \<not> isRespond a"
    using assms(1) by (meson in_set_takeD)
  have len: "length (run db (take k acts)) = length db" using pre by (rule length_run)
  have nr: "\<not> isRespond (acts ! k)" using assms(1) k by simp
  have "run db (take (Suc k) acts) = step (run db (take k acts)) (acts ! k)"
    using k by (simp add: take_Suc_conv_app_nth run_snoc)
  moreover have "okStep (run db (take k acts)) (step (run db (take k acts)) (acts ! k))"
    using nr by (rule step_ok)
  ultimately show "statusStep (status (run db (take k acts) ! gid))
                       (status (run db (take (Suc k) acts) ! gid))"
    using assms(2) len by (simp add: okStep_def)
next
  assume "status (db ! gid) = completed \<or> status (db ! gid) = cancelled"
  with assms show "status (run db acts ! gid) = status (db ! gid)" by (intro run_terminal)
qed

lemma acts0_no_respond: "\<forall>a \<in> set acts0. \<not> isRespond a"
  by (simp add: acts0_def)

lemma acts0_statuses:
  "map (\<lambda>k. status (run [game0] (take k acts0) ! 0)) [0, 1, 2, 3, 4] =
     [pending, active, active, cancelled, cancelled]"
  by (simp add: acts0_def run_def game0_def newGame_def board0_def joinRoute_def canJoin_def
      isUserTurn_def callNumberRoute_def findById_def callNumber_def switchTurn_def
      cancelRoute_def evaluateWinner_def checkWinCondition_def completedLines_def
      rowComplete_def columnComplete_def mainDiagonalComplete_def antiDiagonalComplete_def
      marked_def elemAt_def endGame_def save_def preSave_def duplicateKey_def isExpired_def
      Let_def)

theorem status_transitions_witness:
  "list_all (\<lambda>a. \<not> isRespond a) acts0 \<and> 0 < length [game0] \<and> 2 < length acts0 \<and>
   status (run [game0] (take 2 acts0) ! 0) = active \<and>
   status (run [game0] (take (Suc 2) acts0) ! 0) = cancelled \<and>
   statusStep (status (run [game0] (take 2 acts0) ! 0))
              (status (run [game0] (take (Suc 2) acts0) ! 0)) \<and>
   status ([game0\<lparr>status := completed\<rparr>] ! 0) = completed \<and>
   status (run [game0\<lparr>status := completed\<rparr>] acts0 ! 0) = completed"
proof -
  have l: "0 < length [game0]" "0 < length [game0\<lparr>status := completed\<rparr>]" by simp_all
  have k: "2 < length acts0" by (simp add: acts0_def)
  have c: "status ([game0\<lparr>status := completed\<rparr>] ! 0) = completed" by simp
  show ?thesis
    using status_transitions [OF acts0_no_respond l(1)]
      status_transitions [OF acts0_no_respond l(2)] acts0_no_respond k c acts0_statuses
    by (simp add: eval_nat_numeral list_all_iff)
qed

text \<open>
  The cancel route takes the active game \<open>activeGame0\<close> to cancelled, and the
  \<open>'respond-to-invitation'\<close> handler, which tests no status, takes a completed game to
  active.
\<close>

theorem status_monotonic_counterexample:
  "status activeGame0 = active \<and>
   status (snd (cancelRoute [activeGame0] 0 1 5000) ! 0) = cancelled \<and>
   status (snd (respondToInvitation [activeGame0\<lparr>status := completed\<rparr>] 0 2 True 5000) ! 0) =
     active"
  by (simp add: activeGame0_def game0_def newGame_def cancelRoute_def findById_def save_def
      preSave_def isExpired_def duplicateKey_def respondToInvitation_def)

section \<open>Winner of a call\<close>

lemma evaluateWinner_creator_wins:
  assumes "checkWinCondition g (creatorBoard (gameData g)) (calledNumbers (gameData g)) = Inr True"
    and "checkWinCondition g (opponentBoard (gameData g)) (calledNumbers (gameData g)) = Inr ow"
    and "evaluateWinner g now = Inr g'"
  shows "winner g' = Some (creator g) \<and> status g' = completed"
  using assms by (auto simp: evaluateWinner_def endGame_def Let_def split: option.splits)

lemma checkWinCondition_gameData_irrelevant:
  "checkWinCondition (g\<lparr>gameData := gd\<rparr>) b c = checkWinCondition g b c"
  by (simp add: checkWinCondition_def)

text \<open>
  What the call-number route does when a successful call leaves both boards satisfying the
  win condition: it tests the creator's board first and never looks at the caller, so the
  stored winner is the creator.
\<close>

lemma callNumberRoute_creator_first:
  assumes found: "findById db gid = Some g"
    and ok: "callNumberRoute db gid user (JNumber n) now = (Http 200 msg, db')"
    and cw: "checkWinCondition g (creatorBoard (gameData g))
               (calledNumbers (gameData g) @ [n]) = Inr True"
    and ow: "checkWinCondition g (opponentBoard (gameData g))
               (calledNumbers (gameData g) @ [n]) = Inr True"
  shows "winner (db' ! gid) = Some (creator g) \<and> status (db' ! gid) = completed"
proof -
  from found have lt: "gid < length db" by (simp add: findById_Some)
  from found ok obtain g1 g2 where
    c: "callNumber g n user = (True, g1)" and
    e: "evaluateWinner g1 now = Inr g2" and
    s: "save db gid g2 now = Some db'"
    by (auto simp: callNumberRoute_def
        split: if_splits prod.splits bool.splits sum.splits option.splits)
  from c have g1: "g1 = g\<lparr>gameData := (gameData g)
                  \<lparr>calledNumbers := calledNumbers (gameData g) @ [n],
                   lastCalledNumber := Some n,
                   lastCalledBy := Some user,
                   currentTurn := switchTurn (currentTurn (gameData g))\<rparr>\<rparr>"
    by (auto simp: callNumber_def split: if_splits)
  have "winner g2 = Some (creator g1) \<and> status g2 = completed"
    by (rule evaluateWinner_creator_wins [OF _ _ e, of True])
       (simp_all add: g1 checkWinCondition_gameData_irrelevant cw ow)
  moreover have "db' ! gid = preSave g2 now"
    using save_existing [OF lt s] lt by simp
  ultimately show ?thesis by (simp add: preSave_def g1)
qed

text \<open>
  Claim C8. When one successful call makes both boards satisfy the win condition, the
  acting participant should become the winner. The route does otherwise. In \<open>nearWin0\<close> it
  is the turn of the opponent, user 2, and both participants play \<open>board0\<close>, as in every
  game the create route builds. User 2 calls number 1, which completes row 0 and the main
  diagonal: the call succeeds, both boards now satisfy the win condition with six complete
  lines, and the stored game is completed with the creator, user 1, as its winner, not the
  caller.
\<close>

theorem opponent_call_creator_wins:
  "isUserTurn nearWin0 2 \<and> opponent nearWin0 = 2 \<and> creator nearWin0 = 1 \<and>
   creatorBoard (gameData nearWin0) = opponentBoard (gameData nearWin0) \<and>
   fst (callNumberRoute [nearWin0] 0 2 (JNumber 1) 5000) =
     Http 200 ''Number called successfully'' \<and>
   checkWinCondition nearWin0 (opponentBoard (gameData nearWin0))
     (calledNumbers (gameData nearWin0) @ [1]) = Inr True \<and>
   checkWinCondition nearWin0 (creatorBoard (gameData nearWin0))
     (calledNumbers (gameData nearWin0) @ [1]) = Inr True \<and>
   status (snd (callNumberRoute [nearWin0] 0 2 (JNumber 1) 5000) ! 0) = completed \<and>
   winner (snd (callNumberRoute [nearWin0] 0 2 (JNumber 1) 5000) ! 0) = Some 1"
  by (simp add: nearWin0_def withCalls_def activeGame0_def game0_def newGame_def board0_def
      isUserTurn_def callNumberRoute_def findById_def callNumber_def switchTurn_def
      evaluateWinner_def checkWinCondition_def completedLines_def rowComplete_def
      columnComplete_def mainDiagonalComplete_def antiDiagonalComplete_def marked_def
      elemAt_def endGame_def save_def preSave_def duplicateKey_def isExpired_def Let_def)

section \<open>Range of a called number\<close>

text \<open>
  Claim C9. The REST call-number route succeeds only for a JavaScript number between 1 and
  25; a value outside that range never changes the collection, and once the request has
  passed the status and turn tests it is answered with "Invalid number. Must be between 1
  and 25.". The \<open>'callNumber'\<close> handler of the rooms succeeds only for a number between 1
  and 75, and answers a number outside that range with "Invalid number (must be 1-75)",
  leaving the room as it was.
\<close>

theorem number_range_checks:
  "(fst (callNumberRoute db gid user v now) = Http 200 msg \<longrightarrow>
      (\<exists>n. v = JNumber n \<and> 1 \<le> n \<and> n \<le> 25)) \<and>
   ((\<forall>n. v = JNumber n \<longrightarrow> n < 1 \<or> 25 < n) \<longrightarrow>
      snd (callNumberRoute db gid user v now) = db \<and>
      (findById db gid = Some g \<and> isUserTurn g user \<longrightarrow>
         callNumberRoute db gid user v now =
           (Http 400 ''Invalid number. Must be between 1 and 25.'', db))) \<and>
   (fst (callNumberRoom found user n now) = Emit ''numberCalled'' [] \<longrightarrow> 1 \<le> n \<and> n \<le> 75) \<and>
   (n < 1 \<or> 75 < n \<longrightarrow>
      callNumberRoom found user n now =
        (Emit ''error'' ''Invalid number (must be 1-75)'', found))"
proof (intro conjI impI)
  assume "fst (callNumberRoute db gid user v now) = Http 200 msg"
  then show "\<exists>n. v = JNumber n \<and> 1 \<le> n \<and> n \<le> 25"
    by (auto simp: callNumberRoute_def split: option.splits if_splits jsval.splits)
next
  assume out: "\<forall>n. v = JNumber n \<longrightarrow> n < 1 \<or> 25 < n"
  then show "snd (callNumberRoute db gid user v now) = db"
    by (cases v) (auto simp: callNumberRoute_def split: option.splits)
  assume "findById db gid = Some g \<and> isUserTurn g user"
  moreover from this have "status g = active" by (auto simp: isUserTurn_def split: if_splits)
  ultimately show "callNumberRoute db gid user v now =
           (Http 400 ''Invalid number. Must be between 1 and 25.'', db)"
    using out by (cases v) (auto simp: callNumberRoute_def)
next
  assume "fst (callNumberRoom found user n now) = Emit ''numberCalled'' []"
  then show "1 \<le> n" "n \<le> 75"
    by (auto simp: callNumberRoom_def split: if_splits)
next
  assume "n < 1 \<or> 75 < n"
  then show "callNumberRoom found user n now =
      (Emit ''error'' ''Invalid number (must be 1-75)'', found)"
    by (auto simp: callNumberRoom_def)
qed

lemma activeGame0_call_ok:
  "fst (callNumberRoute [activeGame0] 0 1 (JNumber 7) 5000) =
     Http 200 ''Number called successfully''"
  by (simp add: activeGame0_def game0_def newGame_def board0_def
      isUserTurn_def callNumberRoute_def findById_def callNumber_def switchTurn_def
      evaluateWinner_def checkWinCondition_def completedLines_def rowComplete_def
      columnComplete_def mainDiagonalComplete_def antiDiagonalComplete_def marked_def
      elemAt_def endGame_def save_def preSave_def duplicateKey_def isExpired_def Let_def)

lemma activeGame0_creator_turn:
  "findById [activeGame0] 0 = Some activeGame0 \<and> isUserTurn activeGame0 1"
  by (simp add: findById_def isUserTurn_def activeGame0_def game0_def newGame_def)

lemma room0_call_ok: "fst (callNumberRoom (Some room0) 1 75 5000) = Emit ''numberCalled'' []"
  by (simp add: callNumberRoom_def room0_def)

theorem number_range_checks_witness:
  "fst (callNumberRoute [activeGame0] 0 1 (JNumber 7) 5000) =
     Http 200 ''Number called successfully'' \<and>
   ((26::int) < 1 \<or> (25::int) < 26) \<and>
   findById [activeGame0] 0 = Some activeGame0 \<and> isUserTurn activeGame0 1 \<and>
   callNumberRoute [activeGame0] 0 1 (JNumber 26) 5000 =
     (Http 400 ''Invalid number. Must be between 1 and 25.'', [activeGame0]) \<and>
   fst (callNumberRoom (Some room0) 1 75 5000) = Emit ''numberCalled'' [] \<and>
   ((76::int) < 1 \<or> (75::int) < 76) \<and>
   callNumberRoom (Some room0) 1 76 5000 =
     (Emit ''error'' ''Invalid number (must be 1-75)'', Some room0)"
  using number_range_checks
          [where db = "[activeGame0]" and gid = 0 and user = 1 and v = "JNumber 7"
             and now = 5000 and msg = "''Number called successfully''" and g = activeGame0
             and found = "Some room0" and n = 75]
        number_range_checks
          [where db = "[activeGame0]" and gid = 0 and user = 1 and v = "JNumber 26"
             and now = 5000 and msg = "''Number called successfully''" and g = activeGame0
             and found = "Some room0" and n = 76]
        activeGame0_call_ok activeGame0_creator_turn room0_call_ok
  by simp

section \<open>Generated boards\<close>

lemma random_index_le:
  assumes "0 \<le> r" and "r < 1"
  shows "nat \<lfloor>r * real (Suc n)\<rfloor> \<le> n"
proof -
  have "r * real (Suc n) < real (Suc n)" using assms by simp
  then have "\<lfloor>r * real (Suc n)\<rfloor> < int (Suc n)" by (simp add: floor_less_iff)
  then show ?thesis by linarith
qed

lemma mset_swap_le: "i < length a \<Longrightarrow> j \<le> i \<Longrightarrow> mset (swap a i j) = mset a"
  unfolding swap_def by (rule mset_swap) simp_all

lemma length_swap: "length (swap a i j) = length a"
  by (simp add: swap_def)

text \<open>The shuffle permutes the array: every iteration swaps two positions inside it.\<close>

lemma mset_shuffle:
  "\<forall>i. 0 \<le> rnd i \<and> rnd i < 1 \<Longrightarrow> k < length a \<Longrightarrow> mset (shuffle rnd k a) = mset a"
proof (induction k arbitrary: a)
  case 0
  then show ?case by simp
next
  case (Suc k)
  let ?j = "nat \<lfloor>rnd (Suc k) * real (Suc k + 1)\<rfloor>"
  have j: "?j \<le> Suc k" using Suc.prems(1) random_index_le [of "rnd (Suc k)" "Suc k"] by simp
  have "mset (shuffle rnd k (swap a (Suc k) ?j)) = mset (swap a (Suc k) ?j)"
    using Suc.prems by (intro Suc.IH) (simp_all add: length_swap)
  also have "\<dots> = mset a" using Suc.prems(2) j by (rule mset_swap_le)
  finally show ?case by (simp add: Let_def)
qed

lemma allNumbersInit_list:
  "allNumbersInit = [1, 2, 3, 4, 5, 6, 7, 8, 9, 10, 11, 12, 14, 15, 16, 17, 18, 19, 20, 21, 22,
                     23, 24, 25]"
  by (simp add: allNumbersInit_def upto_rec1)

lemma allNumbersInit_props:
  "length allNumbersInit = 24" "distinct allNumbersInit" "set allNumbersInit = {1..25} - {13}"
proof -
  show "length allNumbersInit = 24" by (simp add: allNumbersInit_list)
  show "distinct allNumbersInit" by (simp add: allNumbersInit_def)
  show "set allNumbersInit = {1..25} - {13}" by (auto simp: allNumbersInit_def)
qed

lemma fillBoard_rows:
  "fst (fillBoard a [0, 1, 2, 3, 4] ([], 0)) =
     [map (numberAt a) [0, 1, 2, 3, 4],
      map (numberAt a) [5, 6, 7, 8, 9],
      [numberAt a 10, numberAt a 11, FREE, numberAt a 12, numberAt a 13],
      map (numberAt a) [14, 15, 16, 17, 18],
      map (numberAt a) [19, 20, 21, 22, 23]]"
  by (simp add: eval_nat_numeral)

lemma upt_24:
  "[0..<24] = [0, 1, 2, 3, 4, 5, 6, 7, 8, 9, 10, 11, 12, 13, 14, 15, 16, 17, 18, 19, 20, 21,
               22, 23]"
  by (simp add: upt_rec)

lemma cells_of_filled:
  assumes "length a = 24"
  shows "cellsExceptCenter (fst (fillBoard a [0, 1, 2, 3, 4] ([], 0))) = map Num a"
proof -
  have "cellsExceptCenter (fst (fillBoard a [0, 1, 2, 3, 4] ([], 0))) =
          map (numberAt a) [0..<24]"
    unfolding fillBoard_rows upt_24 by (simp add: cellsExceptCenter_def)
  also have "\<dots> = map Num (map (nth a) [0..<length a])"
    using assms by (simp add: numberAt_def)
  also have "\<dots> = map Num a" by (simp add: map_nth)
  finally show ?thesis .
qed

text \<open>
  Claim C10. Whatever \<open>Math.random\<close> draws in \<open>[0, 1)\<close>, \<open>generateBingoBoard\<close> returns five
  rows of five cells, the cell in row 2 and column 2 is FREE, and the other 24 cells, read
  row by row, are numbers without repetition that make up exactly the set 1..25 without
  13: none of them is FREE, undefined, 13 or a duplicate.
\<close>

theorem generateBingoBoard_shape:
  assumes "\<forall>i. 0 \<le> rnd i \<and> rnd i < 1"
  shows "length (generateBingoBoard rnd) = 5 \<and>
         (\<forall>row \<in> set (generateBingoBoard rnd). length row = 5) \<and>
         generateBingoBoard rnd ! 2 ! 2 = FREE \<and>
         (\<exists>ns. cellsExceptCenter (generateBingoBoard rnd) = map Num ns \<and> length ns = 24 \<and>
               distinct ns \<and> set ns = {1..25} - {13})"
proof -
  let ?a = "shuffle rnd (length allNumbersInit - 1) allNumbersInit"
  have m: "mset ?a = mset allNumbersInit"
    using assms by (rule mset_shuffle) (simp add: allNumbersInit_props)
  have len: "length ?a = 24" using mset_eq_length [OF m] by (simp add: allNumbersInit_props)
  have dist: "distinct ?a"
    using mset_eq_imp_distinct_iff [OF m] by (simp add: allNumbersInit_props)
  have st: "set ?a = {1..25} - {13}"
    using mset_eq_setD [OF m] by (simp add: allNumbersInit_props)
  have b: "generateBingoBoard rnd = fst (fillBoard ?a [0, 1, 2, 3, 4] ([], 0))"
    by (simp add: generateBingoBoard_def)
  have "cellsExceptCenter (generateBingoBoard rnd) = map Num ?a"
    unfolding b using len by (rule cells_of_filled)
  with len dist st have "\<exists>ns. cellsExceptCenter (generateBingoBoard rnd) = map Num ns \<and>
      length ns = 24 \<and> distinct ns \<and> set ns = {1..25} - {13}" by blast
  moreover have "length (generateBingoBoard rnd) = 5"
    "\<forall>row \<in> set (generateBingoBoard rnd). length row = 5"
    "generateBingoBoard rnd ! 2 ! 2 = FREE"
    unfolding b fillBoard_rows by simp_all
  ultimately show ?thesis by blast
qed

theorem generateBingoBoard_shape_witness:
  "(\<forall>i::nat. (0::real) \<le> 1 / 2 \<and> (1 / 2 :: real) < 1) \<and>
   length (generateBingoBoard (\<lambda>i. 1 / 2)) = 5 \<and>
   list_all (\<lambda>row. length row = 5) (generateBingoBoard (\<lambda>i. 1 / 2)) \<and>
   generateBingoBoard (\<lambda>i. 1 / 2) ! 2 ! 2 = FREE \<and>
   (\<exists>ns. cellsExceptCenter (generateBingoBoard (\<lambda>i. 1 / 2)) = map Num ns \<and> length ns = 24 \<and>
         distinct ns \<and> set ns = {1..25} - {13})"
proof -
  have h: "\<forall>i::nat. (0::real) \<le> 1 / 2 \<and> (1 / 2 :: real) < 1" by simp
  show ?thesis
    using h generateBingoBoard_shape [of "\<lambda>i. 1 / 2", OF h] by (simp add: list_all_iff)
qed

end
